theory Spec2Isabelle
  imports Main "HOL-Library.AList"
begin

section \<open>Strings, rows and dictionaries\<close>

text \<open>
  A Python \<open>str\<close> is modelled as a \<open>string\<close>; a character stands for the code point with
  the same number (code points below 256). A row is what \<open>csv.reader\<close> yields for one
  record: a list of strings, the empty list for a blank line. A file holding CSV data is
  modelled by the list of rows that \<open>csv.reader\<close> yields for it, which is also the list of
  rows that \<open>csv.writer\<close> wrote to it.
\<close>

type_synonym row = "string list"
type_synonym table = "row list"

text \<open>A \<open>dict\<close> with string keys and values, in insertion order; \<open>d[k] = v\<close> is
  \<open>AList.update k v d\<close> (replace in place, or append).\<close>

type_synonym dict = "(string \<times> string) list"

text \<open>\<open>str.isspace\<close> on the code points below 256: TAB, LF, VT, FF, CR, the four
  separators FS, GS, RS, US, the space, NEL and the no-break space.\<close>

definition isspace :: "char \<Rightarrow> bool" where
  "isspace c =
     (let n = (of_char c :: nat)
      in (9 \<le> n \<and> n \<le> 13) \<or> (28 \<le> n \<and> n \<le> 32) \<or> n = 133 \<or> n = 160)"

text \<open>\<open>s.strip()\<close>: leading and trailing whitespace removed.\<close>

definition strip :: "string \<Rightarrow> string" where
  "strip s = rev (dropWhile isspace (rev (dropWhile isspace s)))"

text \<open>\<open>xs.index(x)\<close>: the first position of \<open>x\<close>; \<open>None\<close> stands for \<open>ValueError\<close>.\<close>

fun index_of :: "'a list \<Rightarrow> 'a \<Rightarrow> nat option" where
  "index_of [] x = None"
| "index_of (y # ys) x = (if y = x then Some 0 else map_option Suc (index_of ys x))"

section \<open>The processing loop of \<open>run_csv_etl\<close>\<close>

text \<open>
  The variables of the loop (csv\_runner.py, lines 56 to 59) and the rows handed to
  \<open>writer.writerow\<close> so far, in order.
\<close>

record loop_state =
  initial_count :: int
  transformed_count :: int
  filtered_count :: int
  sample_rows :: "dict list"
  outfile :: table

text \<open>Lines 91 to 96: the dictionary built for one sampled row.\<close>

definition sample_row :: "row \<Rightarrow> row \<Rightarrow> dict" where
  "sample_row header row =
     fold (\<lambda>(i, col) d. if i < length row then AList.update col (row ! i) d
                          else AList.update col '''' d)
          (enumerate 0 header) []"

text \<open>Lines 82 to 99: the body of the loop for one row.\<close>

definition process_row :: "row \<Rightarrow> nat \<Rightarrow> loop_state \<Rightarrow> row \<Rightarrow> loop_state" where
  "process_row header imageid_index s row =
     (let s1 = s\<lparr>initial_count := initial_count s + 1\<rparr>
      in if imageid_index < length row \<and> strip (row ! imageid_index) \<noteq> []
         then
           (let s2 = s1\<lparr>outfile := outfile s1 @ [row],
                        transformed_count := transformed_count s1 + 1\<rparr>
            in if transformed_count s2 \<le> 5
               then s2\<lparr>sample_rows := sample_rows s2 @ [sample_row header row]\<rparr>
               else s2)
         else s1\<lparr>filtered_count := filtered_count s1 + 1\<rparr>)"

text \<open>Line 81: \<open>for row in reader\<close>.\<close>

definition process_rows :: "row \<Rightarrow> nat \<Rightarrow> loop_state \<Rightarrow> table \<Rightarrow> loop_state" where
  "process_rows header imageid_index s rows = foldl (process_row header imageid_index) s rows"

text \<open>Lines 56 to 59 and 67: the state when the loop starts, the header already written.\<close>

definition loop_start :: "row \<Rightarrow> loop_state" where
  "loop_start header =
     \<lparr>initial_count = 0, transformed_count = 0, filtered_count = 0,
      sample_rows = [], outfile = [header]\<rparr>"

section \<open>Paths, the file system and the clock\<close>

type_synonym path = string

text \<open>\<open>os.path.dirname\<close>, \<open>os.path.basename\<close> and \<open>os.path.join\<close> (POSIX).\<close>

definition dirname :: "path \<Rightarrow> path" where
  "dirname p =
     (let h = dropWhile (\<lambda>c. c \<noteq> CHR ''/'') (rev p)
      in if h \<noteq> [] \<and> (\<exists>c \<in> set h. c \<noteq> CHR ''/'')
         then rev (dropWhile (\<lambda>c. c = CHR ''/'') h)
         else rev h)"

definition basename :: "path \<Rightarrow> path" where
  "basename p = rev (takeWhile (\<lambda>c. c \<noteq> CHR ''/'') (rev p))"

definition join :: "path \<Rightarrow> path \<Rightarrow> path" where
  "join a b =
     (if b \<noteq> [] \<and> hd b = CHR ''/'' then b
      else if a = [] \<or> last a = CHR ''/'' then a @ b
      else a @ ''/'' @ b)"

text \<open>The directories above a path, nearest first.\<close>

fun ancestors :: "path \<Rightarrow> path list" where
  "ancestors p =
     (if dirname p = [] \<or> length p \<le> length (dirname p) then []
      else dirname p # ancestors (dirname p))"

declare ancestors.simps [simp del]

text \<open>A data frame of pandas or Spark: the column names and the records, a cell being
  \<open>None\<close> when it is null (NaN) and a value otherwise. The type \<open>'v\<close> of the values is
  left open.\<close>

record 'v frame =
  columns :: "string list"
  records :: "'v option list list"

text \<open>What a file holds: CSV text, as the rows it parses to, or a Parquet data set.\<close>

datatype 'v content = Csv table | Parquet "'v frame"

text \<open>The file system: the directories that exist and the files with their contents.
  The empty path as a parent stands for the working directory, which exists.\<close>

record 'v fs =
  dirs :: "path set"
  files :: "path \<rightharpoonup> 'v content"

datatype py_error =
    FileNotFoundError | FileExistsError | IsADirectoryError | NotADirectoryError
  | SameFileError | DecodeError | StopIteration | EmptyDataError | ParserError | KeyError
  | AnalysisException

text \<open>\<open>os.path.exists\<close>.\<close>

definition exists :: "'v fs \<Rightarrow> path \<Rightarrow> bool" where
  "exists s p = (p \<in> dirs s \<or> p \<in> dom (files s))"

text \<open>\<open>os.makedirs(d, exist_ok=True)\<close>: the empty path is refused, a file in the way is
  an error, otherwise the directory and the missing ones above it exist afterwards.\<close>

definition makedirs :: "path \<Rightarrow> 'v fs \<Rightarrow> py_error + 'v fs" where
  "makedirs d s =
     (if d = [] then Inl FileNotFoundError
      else if files s d \<noteq> None then Inl FileExistsError
      else if \<exists>a \<in> set (ancestors d). files s a \<noteq> None then Inl NotADirectoryError
      else Inr (s\<lparr>dirs := dirs s \<union> set (d # ancestors d)\<rparr>))"

text \<open>\<open>open(p, 'r')\<close> followed by reading the text.\<close>

definition open_read :: "path \<Rightarrow> 'v fs \<Rightarrow> py_error + 'v content" where
  "open_read p s =
     (if p \<in> dirs s then Inl IsADirectoryError
      else case files s p of None \<Rightarrow> Inl FileNotFoundError | Some c \<Rightarrow> Inr c)"

text \<open>\<open>open(p, 'w')\<close>: the file is created or truncated.\<close>

definition open_write :: "path \<Rightarrow> 'v fs \<Rightarrow> py_error + 'v fs" where
  "open_write p s =
     (if p \<in> dirs s then Inl IsADirectoryError
      else if dirname p \<noteq> [] \<and> dirname p \<notin> dirs s
           then (if files s (dirname p) \<noteq> None then Inl NotADirectoryError
                 else Inl FileNotFoundError)
      else Inr (s\<lparr>files := (files s)(p \<mapsto> Csv [])\<rparr>))"

text \<open>\<open>shutil.copy(src, dst)\<close>: into \<open>dst\<close> when it is a directory; the same file on both
  sides is an error.\<close>

definition copy :: "path \<Rightarrow> path \<Rightarrow> 'v fs \<Rightarrow> py_error + 'v fs" where
  "copy src dst s =
     (let dst' = (if dst \<in> dirs s then join dst (basename src) else dst)
      in if src = dst' then Inl SameFileError
         else case open_read src s of
                Inl e \<Rightarrow> Inl e
              | Inr c \<Rightarrow>
                  (case open_write dst' s of
                     Inl e \<Rightarrow> Inl e
                   | Inr s' \<Rightarrow> Inr (s'\<lparr>files := (files s')(dst' \<mapsto> c)\<rparr>)))"

text \<open>The rows \<open>csv.reader\<close> yields for a file opened for reading; a Parquet file is
  not text.\<close>

definition csv_rows :: "path \<Rightarrow> 'v fs \<Rightarrow> py_error + table" where
  "csv_rows p s =
     (case open_read p s of
        Inl e \<Rightarrow> Inl e
      | Inr (Csv t) \<Rightarrow> Inr t
      | Inr (Parquet f) \<Rightarrow> Inl DecodeError)"

text \<open>The two readings of \<open>datetime.now()\<close> that reach the result: the stamp in the name
  of the default output directory and the ISO time of the result.\<close>

record clock =
  strftime :: string
  isoformat :: string

section \<open>\<open>run_csv_etl\<close>\<close>

text \<open>The \<open>error\<close> entry of a failure: a fixed message, or \<open>str(e)\<close> of a caught exception.\<close>

datatype err_text = Text string | Str py_error

text \<open>The dictionary a runner returns: on success the time, the statistics (a
  dictionary from the name of a count to the count), the sample (a list of dictionaries
  from column name to value) and the output path; on failure the error and the time,
  and no other entry.\<close>

datatype 'v run_result =
    Success string "(string \<times> int) list" "(string \<times> 'v) list list" path
  | Failure err_text string

text \<open>A call returns a value or raises.\<close>

datatype 'a outcome = Returned 'a | Raised py_error

text \<open>Lines 30 and 31 (the same in all runners): the input path, or its default.\<close>

definition input_or_default :: "path option \<Rightarrow> path" where
  "input_or_default input_path =
     (case input_path of None \<Rightarrow> ''data/labels.csv'' | Some p \<Rightarrow> p)"

text \<open>Lines 42 to 48: the output path, and its directory created.\<close>

definition prepare_output :: "clock \<Rightarrow> 'v fs \<Rightarrow> path option \<Rightarrow> py_error + (path \<times> 'v fs)" where
  "prepare_output clk s output_path =
     (case output_path of
        None \<Rightarrow>
          (let output_dir = ''data/output/csv_'' @ strftime clk
           in case makedirs output_dir s of
                Inl e \<Rightarrow> Inl e
              | Inr s' \<Rightarrow> Inr (join output_dir ''processed_data.csv'', s'))
      | Some p \<Rightarrow>
          (case makedirs (dirname p) s of
             Inl e \<Rightarrow> Inl e
           | Inr s' \<Rightarrow> Inr (p, s')))"

definition schema_message :: string where
  "schema_message = ''CSV file does not contain an '' @ [CHR 0x27] @ ''ImageID'' @ [CHR 0x27] @ '' column''"

definition fixed_output_path :: path where
  "fixed_output_path = ''data/output/latest_processed.csv''"

text \<open>
  Lines 54 to 128, the \<open>try\<close> block. Both files are opened before anything is read, so
  the reader sees the input as it is after the output was truncated. The header is
  written before the column is looked up. Every exception is caught and turned into a
  failure.
\<close>

definition run_body :: "clock \<Rightarrow> 'v fs \<Rightarrow> path \<Rightarrow> path \<Rightarrow> string run_result \<times> 'v fs" where
  "run_body clk s input_path output_path =
     (case open_read input_path s of
        Inl e \<Rightarrow> (Failure (Str e) (isoformat clk), s)
      | Inr _ \<Rightarrow>
     (case open_write output_path s of
        Inl e \<Rightarrow> (Failure (Str e) (isoformat clk), s)
      | Inr s1 \<Rightarrow>
     (case csv_rows input_path s1 of
        Inl e \<Rightarrow> (Failure (Str e) (isoformat clk), s1)
      | Inr [] \<Rightarrow> (Failure (Str StopIteration) (isoformat clk), s1)
      | Inr (header # rows) \<Rightarrow>
     (let s2 = s1\<lparr>files := (files s1)(output_path \<mapsto> Csv [header])\<rparr>
      in case index_of header ''ImageID'' of
           None \<Rightarrow> (Failure (Text schema_message) (isoformat clk), s2)
         | Some imageid_index \<Rightarrow>
     (let st = process_rows header imageid_index (loop_start header) rows;
          s3 = s2\<lparr>files := (files s2)(output_path \<mapsto> Csv (outfile st))\<rparr>
      in case copy output_path fixed_output_path s3 of
           Inl e \<Rightarrow> (Failure (Str e) (isoformat clk), s3)
         | Inr s4 \<Rightarrow>
             (Success (isoformat clk)
                [(''initial_count'', initial_count st),
                 (''transformed_count'', transformed_count st),
                 (''filtered_count'', filtered_count st)]
                (sample_rows st) output_path, s4))))))"

text \<open>Lines 18 to 52 and the call of the \<open>try\<close> block. \<open>os.makedirs\<close> is called outside
  the \<open>try\<close> block, so what it raises reaches the caller.\<close>

definition run_csv_etl ::
  "clock \<Rightarrow> 'v fs \<Rightarrow> path option \<Rightarrow> path option \<Rightarrow> string run_result outcome \<times> 'v fs" where
  "run_csv_etl clk s input_path_arg output_path_arg =
     (let input_path = input_or_default input_path_arg
      in if \<not> exists s input_path
         then (Returned (Failure (Text (''Input file '' @ input_path @ '' does not exist''))
                                 (isoformat clk)), s)
         else case prepare_output clk s output_path_arg of
                Inl e \<Rightarrow> (Raised e, s)
              | Inr (output_path, s1) \<Rightarrow>
                  (case run_body clk s1 input_path output_path of
                     (r, s2) \<Rightarrow> (Returned r, s2)))"

section \<open>The data-frame runners: \<open>run_pandas_etl\<close> and \<open>ingest\<close>\<close>

text \<open>
  \<open>pandas.read_csv\<close> and the CSV reader of Spark are library code, not part of this
  repository: the runners take them as parameters. A reader maps the rows of the file
  to a frame, or refuses the file; what it returns is taken to depend on the file through
  its rows. Nothing is assumed about the fields a reader turns into nulls, the lines it
  skips or the types it gives the values.
\<close>

text \<open>\<open>df.dropna(subset=['ImageID'])\<close> and \<open>df.filter(col("ImageID").isNotNull())\<close>: the
  records whose \<open>ImageID\<close> is not null; an error when there is no such column.\<close>

definition not_null_at :: "nat \<Rightarrow> 'v option list \<Rightarrow> bool" where
  "not_null_at k r = (k < length r \<and> r ! k \<noteq> None)"

definition dropna :: "'v frame \<Rightarrow> py_error + 'v frame" where
  "dropna df =
     (case index_of (columns df) ''ImageID'' of
        None \<Rightarrow> Inl KeyError
      | Some k \<Rightarrow> Inr (df\<lparr>records := filter (not_null_at k) (records df)\<rparr>))"

definition filter_isNotNull :: "'v frame \<Rightarrow> py_error + 'v frame" where
  "filter_isNotNull df =
     (case index_of (columns df) ''ImageID'' of
        None \<Rightarrow> Inl AnalysisException
      | Some k \<Rightarrow> Inr (df\<lparr>records := filter (not_null_at k) (records df)\<rparr>))"

text \<open>Writing a frame as Parquet to a path, replacing what is there.\<close>

definition write_parquet :: "path \<Rightarrow> 'v frame \<Rightarrow> 'v fs \<Rightarrow> py_error + 'v fs" where
  "write_parquet p df s =
     (if p \<in> dirs s then Inl IsADirectoryError
      else if dirname p \<noteq> [] \<and> dirname p \<notin> dirs s then Inl FileNotFoundError
      else Inr (s\<lparr>files := (files s)(p \<mapsto> Parquet df)\<rparr>))"

definition read_parquet :: "path \<Rightarrow> 'v fs \<Rightarrow> py_error + 'v frame" where
  "read_parquet p s =
     (case open_read p s of
        Inl e \<Rightarrow> Inl e
      | Inr (Parquet df) \<Rightarrow> Inr df
      | Inr (Csv t) \<Rightarrow> Inl DecodeError)"

text \<open>\<open>df.head(5).to_dict(orient='records')\<close>.\<close>

definition to_dict_records :: "'v frame \<Rightarrow> (string \<times> 'v option) list list" where
  "to_dict_records df =
     map (\<lambda>r. fold (\<lambda>(c, v) d. AList.update c v d) (zip (columns df) r) [])
         (take 5 (records df))"

text \<open>pandas\_runner.py, lines 52 to 106: the \<open>try\<close> block, with \<open>pd.read_csv\<close> as the
  parameter \<open>read_csv\<close>.\<close>

definition pandas_body ::
  "(table \<Rightarrow> py_error + 'v frame) \<Rightarrow> clock \<Rightarrow> 'v fs \<Rightarrow> path \<Rightarrow> path
     \<Rightarrow> 'v option run_result \<times> 'v fs" where
  "pandas_body read_csv clk s input_path output_path =
     (case csv_rows input_path s of
        Inl e \<Rightarrow> (Failure (Str e) (isoformat clk), s)
      | Inr t \<Rightarrow>
     (case read_csv t of
        Inl e \<Rightarrow> (Failure (Str e) (isoformat clk), s)
      | Inr df0 \<Rightarrow>
     (let initial_count = int (length (records df0))
      in case dropna df0 of
           Inl e \<Rightarrow> (Failure (Str e) (isoformat clk), s)
         | Inr df \<Rightarrow>
     (let transformed_count = int (length (records df))
      in case write_parquet output_path df s of
           Inl e \<Rightarrow> (Failure (Str e) (isoformat clk), s)
         | Inr s1 \<Rightarrow>
     (case read_parquet output_path s1 of
        Inl e \<Rightarrow> (Failure (Str e) (isoformat clk), s1)
      | Inr validation_df \<Rightarrow>
          (let validation_count = int (length (records validation_df))
           in (Success (isoformat clk)
                 [(''initial_count'', initial_count),
                  (''transformed_count'', transformed_count),
                  (''filtered_count'', initial_count - transformed_count),
                  (''validated_count'', validation_count)]
                 (to_dict_records validation_df) output_path, s1)))))))"

text \<open>pandas\_runner.py, lines 17 to 50, and the call of the \<open>try\<close> block.\<close>

definition run_pandas_etl ::
  "(table \<Rightarrow> py_error + 'v frame) \<Rightarrow> clock \<Rightarrow> 'v fs \<Rightarrow> path option \<Rightarrow> path option
     \<Rightarrow> 'v option run_result outcome \<times> 'v fs" where
  "run_pandas_etl read_csv clk s input_path_arg output_path_arg =
     (let input_path = input_or_default input_path_arg
      in if \<not> exists s input_path
         then (Returned (Failure (Text (''Input file '' @ input_path @ '' does not exist''))
                                 (isoformat clk)), s)
         else
           (let output_path = (case output_path_arg of
                                 None \<Rightarrow> ''data/output/parquet_'' @ strftime clk
                               | Some p \<Rightarrow> p)
            in case makedirs (dirname output_path) s of
                 Inl e \<Rightarrow> (Raised e, s)
               | Inr s1 \<Rightarrow>
                   (case pandas_body read_csv clk s1 input_path output_path of
                      (r, s2) \<Rightarrow> (Returned r, s2))))"

text \<open>What \<open>ingest\<close> reports: the two counts it logs and the output path it returns
  (next to the Spark session).\<close>

record ingest_report =
  total_rows :: int
  filtered_rows :: int
  parquet_path :: path

text \<open>ingest.py, lines 35 to 90, with \<open>spark.read.option("header", "true").csv\<close> as the
  parameter \<open>spark_csv\<close>. Only the load of a single CSV file is modelled; for any other
  input the load is taken to raise. Every exception of the \<open>try\<close> block is raised
  again.\<close>

definition ingest ::
  "(table \<Rightarrow> py_error + 'v frame) \<Rightarrow> 'v fs \<Rightarrow> path option \<Rightarrow> path option
     \<Rightarrow> ingest_report outcome \<times> 'v fs" where
  "ingest spark_csv s input_path_arg output_path_arg =
     (let input_path = input_or_default input_path_arg;
          output_path = (case output_path_arg of None \<Rightarrow> ''data/output/parquet'' | Some p \<Rightarrow> p)
      in if \<not> exists s input_path then (Raised FileNotFoundError, s)
         else case makedirs (dirname output_path) s of
                Inl e \<Rightarrow> (Raised e, s)
              | Inr s1 \<Rightarrow>
         (case csv_rows input_path s1 of
            Inl e \<Rightarrow> (Raised AnalysisException, s1)
          | Inr t \<Rightarrow>
         (case spark_csv t of
            Inl e \<Rightarrow> (Raised e, s1)
          | Inr df \<Rightarrow>
         (let total = int (length (records df))
          in case filter_isNotNull df of
               Inl e \<Rightarrow> (Raised e, s1)
             | Inr filtered_df \<Rightarrow>
                 (let n = int (length (records filtered_df))
                  in case write_parquet output_path filtered_df s1 of
                       Inl e \<Rightarrow> (Raised e, s1)
                     | Inr s2 \<Rightarrow>
                         (Returned \<lparr>total_rows = total, filtered_rows = n,
                                    parquet_path = output_path\<rparr>, s2))))))"

section \<open>The acceptance rule in the words of the specification\<close>

text \<open>
  A record is accepted iff the Key Field is present (within the record's field range)
  and its value, after trimming surrounding whitespace, is non-empty.
\<close>

definition key_field_accepted :: "nat \<Rightarrow> row \<Rightarrow> bool" where
  "key_field_accepted k row = (k < length row \<and> strip (row ! k) \<noteq> [])"

text \<open>The value of a record at a position, the empty string at or beyond its length.\<close>

definition padded_field :: "row \<Rightarrow> nat \<Rightarrow> string" where
  "padded_field row i = (if i < length row then row ! i else '''')"

section \<open>The state after the loop, and example inputs\<close>

definition final_state :: "row \<Rightarrow> nat \<Rightarrow> table \<Rightarrow> loop_state" where
  "final_state header k rows = process_rows header k (loop_start header) rows"

text \<open>The scenario of the specification: three data rows, the first without an
  identifier.\<close>

definition scenario_table :: table where
  "scenario_table =
     [[''ImageID'', ''LabelName'', ''Confidence''],
      ['''', ''cat'', ''0.9''], [''i2'', ''dog'', ''0.8''], [''i3'', '''', ''0.5'']]"

definition example_clock :: clock where
  "example_clock = \<lparr>strftime = ''20240101_120000'', isoformat = ''2024-01-01T12:00:00''\<rparr>"

text \<open>A file system that holds nothing but a table at the default input path, in
  its directory.\<close>

definition fs_with_input :: "table \<Rightarrow> string fs" where
  "fs_with_input t = \<lparr>dirs = {''data''}, files = [''data/labels.csv'' \<mapsto> Csv t]\<rparr>"

text \<open>A second environment: another time, the input at another path, and the output
  of an earlier run left behind.\<close>

definition other_clock :: clock where
  "other_clock = \<lparr>strftime = ''20250630_083000'', isoformat = ''2025-06-30T08:30:00''\<rparr>"

definition fs_with_leftovers :: "table \<Rightarrow> string fs" where
  "fs_with_leftovers t =
     \<lparr>dirs = {''data'', ''data/output''},
      files = [''in.csv'' \<mapsto> Csv t,
               ''data/output/latest_processed.csv'' \<mapsto> Csv [[''old''], [''rows'']]]\<rparr>"






section \<open>Properties of the loop\<close>

lemma process_rows_Nil: "process_rows h k s [] = s"
  by (simp add: process_rows_def)

lemma process_rows_Cons: "process_rows h k s (r # rs) = process_rows h k (process_row h k s r) rs"
  by (simp add: process_rows_def)

lemma process_rows_initial:
  "initial_count (process_rows h k s rs) = initial_count s + int (length rs)"
  by (induction rs arbitrary: s) (simp_all add: process_rows_Nil process_rows_Cons process_row_def Let_def)

lemma process_rows_transformed:
  "transformed_count (process_rows h k s rs)
     = transformed_count s + int (length (filter (key_field_accepted k) rs))"
  by (induction rs arbitrary: s)
     (simp_all add: process_rows_Nil process_rows_Cons process_row_def Let_def key_field_accepted_def)

lemma process_rows_filtered:
  "filtered_count (process_rows h k s rs)
     = filtered_count s + int (length (filter (\<lambda>r. \<not> key_field_accepted k r) rs))"
  by (induction rs arbitrary: s)
     (simp_all add: process_rows_Nil process_rows_Cons process_row_def Let_def key_field_accepted_def)

lemma process_rows_outfile:
  "outfile (process_rows h k s rs) = outfile s @ filter (key_field_accepted k) rs"
  by (induction rs arbitrary: s)
     (simp_all add: process_rows_Nil process_rows_Cons process_row_def Let_def key_field_accepted_def)

lemma process_rows_balance:
  "initial_count s = transformed_count s + filtered_count s \<Longrightarrow>
   initial_count (process_rows h k s rs)
     = transformed_count (process_rows h k s rs) + filtered_count (process_rows h k s rs)"
  by (induction rs arbitrary: s)
     (simp_all add: process_rows_Nil process_rows_Cons process_row_def Let_def)

text \<open>The sample after the loop, from a state whose sample holds the rows accepted so far
  while there are fewer than five of them.\<close>

lemma process_rows_sample:
  "transformed_count s = int (length acc) \<Longrightarrow>
   sample_rows s = map (sample_row h) (take 5 acc) \<Longrightarrow>
   sample_rows (process_rows h k s rs)
     = map (sample_row h) (take 5 (acc @ filter (key_field_accepted k) rs))"
proof (induction rs arbitrary: s acc)
  case Nil
  then show ?case by (simp add: process_rows_Nil)
next
  case (Cons r rs)
  show ?case
  proof (cases "key_field_accepted k r")
    case False
    then have "process_row h k s r
        = s\<lparr>initial_count := initial_count s + 1, filtered_count := filtered_count s + 1\<rparr>"
      by (simp add: process_row_def key_field_accepted_def Let_def)
    with Cons False show ?thesis
      by (simp add: process_rows_Cons)
  next
    case True
    let ?s' = "process_row h k s r"
    have tc: "transformed_count ?s' = int (length (acc @ [r]))"
      using True Cons.prems(1)
      by (simp add: process_row_def key_field_accepted_def Let_def)
    have sm: "sample_rows ?s' = map (sample_row h) (take 5 (acc @ [r]))"
      using True Cons.prems
      by (simp add: process_row_def key_field_accepted_def Let_def)
    from Cons.IH [OF tc sm] True show ?thesis
      by (simp add: process_rows_Cons)
  qed
qed

lemma fold_update_keys:
  "fst ` set (fold (\<lambda>(i, col) d. if i < length row then AList.update col (row ! i) d
                                  else AList.update col '''' d) ps d0)
     = snd ` set ps \<union> fst ` set d0"
  by (induction ps arbitrary: d0) (auto simp: dom_update split: prod.splits)

lemma snd_enumerate: "snd ` set (enumerate n xs) = set xs"
  using set_map [of snd "enumerate n xs", symmetric] by (simp only: map_snd_enumerate)

lemma sample_row_keys: "fst ` set (sample_row header row) = set header"
  by (simp add: sample_row_def fold_update_keys snd_enumerate)

section \<open>Evaluation and the successful run\<close>

lemmas eval_defs = run_csv_etl_def input_or_default_def exists_def prepare_output_def makedirs_def
  ancestors.simps dirname_def join_def basename_def run_body_def open_read_def open_write_def
  csv_rows_def copy_def fixed_output_path_def process_rows_def process_row_def loop_start_def
  strip_def isspace_def sample_row_def enumerate_eq_zip Let_def

lemma index_of_SomeD: "index_of xs x = Some k \<Longrightarrow> k < length xs \<and> xs ! k = x"
  by (induction xs arbitrary: k) (auto split: if_splits)


lemma fold_update_other:
  "c \<notin> snd ` set ps \<Longrightarrow>
   map_of (fold (\<lambda>(i, col) d. if i < length row then AList.update col (row ! i) d
                               else AList.update col '''' d) ps d) c = map_of d c"
  by (induction ps arbitrary: d) (auto simp: update_conv')

lemma fold_update_lookup:
  "i < length cols \<Longrightarrow> cols ! i \<notin> set (drop (Suc i) cols) \<Longrightarrow>
   map_of (fold (\<lambda>(i, col) d. if i < length row then AList.update col (row ! i) d
                               else AList.update col '''' d) (enumerate n cols) d) (cols ! i)
     = Some (padded_field row (n + i))"
proof (induction cols arbitrary: n d i)
  case Nil
  then show ?case by simp
next
  case (Cons c cs)
  show ?case
  proof (cases i)
    case 0
    with Cons.prems have "c \<notin> snd ` set (enumerate (Suc n) cs)"
      by (simp add: snd_enumerate)
    with 0 show ?thesis
      by (simp add: fold_update_other update_conv' padded_field_def)
  next
    case (Suc j)
    with Cons.prems have "j < length cs" "cs ! j \<notin> set (drop (Suc j) cs)"
      by simp_all
    from Cons.IH [OF this] Suc show ?thesis
      by simp
  qed
qed

lemma sample_row_lookup:
  "i < length header \<Longrightarrow> header ! i \<notin> set (drop (Suc i) header) \<Longrightarrow>
   map_of (sample_row header row) (header ! i) = Some (padded_field row i)"
  using fold_update_lookup [of i header row 0 "[]"] by (simp add: sample_row_def)

lemma final_state_stats:
  "initial_count (final_state h k rows) = int (length rows)"
  "transformed_count (final_state h k rows) = int (length (filter (key_field_accepted k) rows))"
  "filtered_count (final_state h k rows) = int (length (filter (\<lambda>r. \<not> key_field_accepted k r) rows))"
  "outfile (final_state h k rows) = h # filter (key_field_accepted k) rows"
  by (simp_all add: final_state_def process_rows_initial process_rows_transformed
        process_rows_filtered process_rows_outfile loop_start_def)

lemma final_state_sample:
  "sample_rows (final_state h k rows) = map (sample_row h) (take 5 (filter (key_field_accepted k) rows))"
  using process_rows_sample [of "loop_start h" "[]" h k rows]
  by (simp add: final_state_def loop_start_def)

lemma run_body_SuccessD:
  assumes "run_body clk s inp out = (Success ts st smp op, s')"
  shows "\<exists>s1 header rows k.
           open_write out s = Inr s1 \<and> csv_rows inp s1 = Inr (header # rows) \<and>
           index_of header ''ImageID'' = Some k \<and> ts = isoformat clk \<and> op = out \<and>
           st = [(''initial_count'', initial_count (final_state header k rows)),
                 (''transformed_count'', transformed_count (final_state header k rows)),
                 (''filtered_count'', filtered_count (final_state header k rows))] \<and>
           smp = sample_rows (final_state header k rows) \<and>
           copy out fixed_output_path
             (s1\<lparr>files := (files s1)(out \<mapsto> Csv (outfile (final_state header k rows)))\<rparr>)
             = Inr s'"
  using assms
  by (auto simp: run_body_def final_state_def Let_def split: sum.splits list.splits option.splits)

lemma copy_keeps_source: "copy src dst s = Inr s' \<Longrightarrow> files s' src = files s src"
  by (auto simp: copy_def open_write_def Let_def split: sum.splits if_splits)

lemma makedirs_files: "makedirs d s = Inr s' \<Longrightarrow> files s' = files s"
  by (auto simp: makedirs_def split: if_splits)

lemma prepare_output_files: "prepare_output clk s outp = Inr (out, s') \<Longrightarrow> files s' = files s"
  by (auto simp: prepare_output_def Let_def split: option.splits sum.splits dest: makedirs_files)

lemma read_after_truncate:
  assumes "open_write out s = Inr s1" "csv_rows inp s1 = Inr (h # rows)"
  shows "files s inp = Some (Csv (h # rows)) \<and> inp \<noteq> out"
  using assms
  by (auto simp: open_write_def csv_rows_def open_read_def split: if_splits sum.splits option.splits content.splits)

lemma run_csv_etl_SuccessD:
  assumes "run_csv_etl clk s inp outp = (Returned (Success ts st smp out), s')"
  shows "\<exists>header rows k.
           files s (input_or_default inp) = Some (Csv (header # rows)) \<and>
           index_of header ''ImageID'' = Some k \<and> ts = isoformat clk \<and>
           st = [(''initial_count'', initial_count (final_state header k rows)),
                 (''transformed_count'', transformed_count (final_state header k rows)),
                 (''filtered_count'', filtered_count (final_state header k rows))] \<and>
           smp = sample_rows (final_state header k rows) \<and>
           files s' out = Some (Csv (outfile (final_state header k rows)))"
proof -
  from assms obtain s0 where prep: "prepare_output clk s outp = Inr (out, s0)"
    and body: "run_body clk s0 (input_or_default inp) out = (Success ts st smp out, s')"
    by (auto simp: run_csv_etl_def Let_def split: if_splits sum.splits prod.splits
             dest: run_body_SuccessD)
  from run_body_SuccessD [OF body] obtain s1 header rows k where
    ow: "open_write out s0 = Inr s1" and rd: "csv_rows (input_or_default inp) s1 = Inr (header # rows)"
    and ix: "index_of header ''ImageID'' = Some k" and ts: "ts = isoformat clk"
    and st: "st = [(''initial_count'', initial_count (final_state header k rows)),
                 (''transformed_count'', transformed_count (final_state header k rows)),
                 (''filtered_count'', filtered_count (final_state header k rows))]"
    and smp: "smp = sample_rows (final_state header k rows)"
    and cp: "copy out fixed_output_path
             (s1\<lparr>files := (files s1)(out \<mapsto> Csv (outfile (final_state header k rows)))\<rparr>) = Inr s'"
    by blast
  from read_after_truncate [OF ow rd] prepare_output_files [OF prep]
  have inp: "files s (input_or_default inp) = Some (Csv (header # rows))"
    by simp
  from copy_keeps_source [OF cp]
  have "files s' out = Some (Csv (outfile (final_state header k rows)))"
    by simp
  with inp ix ts st smp show ?thesis
    by blast
qed

section \<open>The claims about \<open>run_csv_etl\<close>\<close>

lemma example_run:
  "run_csv_etl example_clock (fs_with_input scenario_table) None None
     = (Returned (Success ''2024-01-01T12:00:00''
          [(''initial_count'', 3), (''transformed_count'', 2), (''filtered_count'', 1)]
          [[(''ImageID'', ''i2''), (''LabelName'', ''dog''), (''Confidence'', ''0.8'')],
           [(''ImageID'', ''i3''), (''LabelName'', ''''), (''Confidence'', ''0.5'')]]
          ''data/output/csv_20240101_120000/processed_data.csv''),
        snd (run_csv_etl example_clock (fs_with_input scenario_table) None None))"
  by (simp add: prod_eq_iff eval_defs example_clock_def fs_with_input_def scenario_table_def)

lemma example_input:
  "files (fs_with_input scenario_table) (input_or_default None)
     = Some (Csv ([''ImageID'', ''LabelName'', ''Confidence'']
                  # [['''', ''cat'', ''0.9''], [''i2'', ''dog'', ''0.8''], [''i3'', '''', ''0.5'']]))"
  by (simp add: fs_with_input_def input_or_default_def scenario_table_def)

text \<open>
  C1, as stated, fails: a row shorter than the header is accepted when it still holds a
  non-blank \<open>ImageID\<close>. Under the header of three columns the row with the single field
  \<open>i1\<close> is written to the output and counted in \<open>transformed_count\<close>.
\<close>

theorem short_row_accepted_counterexample:
  "length [''i1''] < length [''ImageID'', ''LabelName'', ''Confidence''] \<and>
   fst (run_csv_etl example_clock
          (fs_with_input [[''ImageID'', ''LabelName'', ''Confidence''], [''i1'']]) None None)
     = Returned (Success ''2024-01-01T12:00:00''
          [(''initial_count'', 1), (''transformed_count'', 1), (''filtered_count'', 0)]
          [[(''ImageID'', ''i1''), (''LabelName'', ''''), (''Confidence'', '''')]]
          ''data/output/csv_20240101_120000/processed_data.csv'') \<and>
   files (snd (run_csv_etl example_clock
          (fs_with_input [[''ImageID'', ''LabelName'', ''Confidence''], [''i1'']]) None None))
       ''data/output/csv_20240101_120000/processed_data.csv''
     = Some (Csv [[''ImageID'', ''LabelName'', ''Confidence''], [''i1'']])"
  by (simp add: eval_defs example_clock_def fs_with_input_def)

text \<open>
  C1, amended: in a successful run over a header and data rows, with \<open>k\<close> the position
  of \<open>ImageID\<close> in the header, a row is accepted (written to the output, in order, and
  counted in \<open>transformed_count\<close>) iff \<open>k\<close> is less than the row's length and the value
  at \<open>k\<close>, stripped, is non-empty; every other row (too short to reach position \<open>k\<close>,
  or with an empty or all-whitespace value there) is counted in \<open>filtered_count\<close> and
  not written. The length of the header plays no part.
\<close>

theorem acceptance_rule:
  assumes "run_csv_etl clk s inp outp = (Returned (Success ts st smp out), s')"
    and "files s (input_or_default inp) = Some (Csv (header # rows))"
    and "index_of header ''ImageID'' = Some k"
  shows "files s' out
           = Some (Csv (header # filter (\<lambda>r. k < length r \<and> strip (r ! k) \<noteq> []) rows)) \<and>
         st = [(''initial_count'', int (length rows)),
               (''transformed_count'',
                  int (length (filter (\<lambda>r. k < length r \<and> strip (r ! k) \<noteq> []) rows))),
               (''filtered_count'',
                  int (length (filter (\<lambda>r. length r \<le> k \<or> strip (r ! k) = []) rows)))]"
proof -
  have acc: "filter (key_field_accepted k) rows
               = filter (\<lambda>r. k < length r \<and> strip (r ! k) \<noteq> []) rows"
    by (rule filter_cong) (simp_all add: key_field_accepted_def)
  have rej: "filter (\<lambda>r. \<not> key_field_accepted k r) rows
               = filter (\<lambda>r. length r \<le> k \<or> strip (r ! k) = []) rows"
    by (rule filter_cong) (auto simp: key_field_accepted_def)
  from run_csv_etl_SuccessD [OF assms(1)] assms(2,3)
  have st: "st = [(''initial_count'', initial_count (final_state header k rows)),
              (''transformed_count'', transformed_count (final_state header k rows)),
              (''filtered_count'', filtered_count (final_state header k rows))]"
    and out: "files s' out = Some (Csv (outfile (final_state header k rows)))"
    by auto
  show ?thesis
    unfolding st out final_state_stats acc rej by (rule conjI) (rule refl)+
qed

theorem acceptance_rule_witness:
  "run_csv_etl example_clock (fs_with_input scenario_table) None None
     = (Returned (Success ''2024-01-01T12:00:00''
          [(''initial_count'', 3), (''transformed_count'', 2), (''filtered_count'', 1)]
          [[(''ImageID'', ''i2''), (''LabelName'', ''dog''), (''Confidence'', ''0.8'')],
           [(''ImageID'', ''i3''), (''LabelName'', ''''), (''Confidence'', ''0.5'')]]
          ''data/output/csv_20240101_120000/processed_data.csv''),
        snd (run_csv_etl example_clock (fs_with_input scenario_table) None None)) \<and>
   index_of [''ImageID'', ''LabelName'', ''Confidence''] ''ImageID'' = Some 0 \<and>
   files (snd (run_csv_etl example_clock (fs_with_input scenario_table) None None))
       ''data/output/csv_20240101_120000/processed_data.csv''
     = Some (Csv [[''ImageID'', ''LabelName'', ''Confidence''],
                  [''i2'', ''dog'', ''0.8''], [''i3'', '''', ''0.5'']])"
proof -
  have ix: "index_of [''ImageID'', ''LabelName'', ''Confidence''] ''ImageID'' = Some 0"
    by simp
  from acceptance_rule [OF example_run example_input ix] example_run ix show ?thesis
    by (simp add: strip_def isspace_def)
qed

text \<open>
  C2: the statistics of every successful run satisfy
  \<open>initial_count = transformed_count + filtered_count\<close>.
\<close>

theorem counts_balance:
  assumes "run_csv_etl clk s inp outp = (Returned (Success ts st smp out), s')"
  shows "\<exists>i t f. st = [(''initial_count'', i), (''transformed_count'', t), (''filtered_count'', f)]
           \<and> i = t + f"
proof -
  from run_csv_etl_SuccessD [OF assms] obtain header rows k where
    st: "st = [(''initial_count'', initial_count (final_state header k rows)),
               (''transformed_count'', transformed_count (final_state header k rows)),
               (''filtered_count'', filtered_count (final_state header k rows))]"
    by blast
  have "initial_count (final_state header k rows)
          = transformed_count (final_state header k rows) + filtered_count (final_state header k rows)"
    unfolding final_state_def by (rule process_rows_balance) (simp add: loop_start_def)
  with st show ?thesis
    by blast
qed

theorem counts_balance_witness:
  "run_csv_etl example_clock (fs_with_input scenario_table) None None
     = (Returned (Success ''2024-01-01T12:00:00''
          [(''initial_count'', 3), (''transformed_count'', 2), (''filtered_count'', 1)]
          [[(''ImageID'', ''i2''), (''LabelName'', ''dog''), (''Confidence'', ''0.8'')],
           [(''ImageID'', ''i3''), (''LabelName'', ''''), (''Confidence'', ''0.5'')]]
          ''data/output/csv_20240101_120000/processed_data.csv''),
        snd (run_csv_etl example_clock (fs_with_input scenario_table) None None)) \<and>
   (\<exists>i t f. [(''initial_count'', 3), (''transformed_count'', 2), (''filtered_count'', 1)]
               = [(''initial_count'', i), (''transformed_count'', t), (''filtered_count'', f :: int)]
             \<and> i = t + f)"
  using counts_balance [OF example_run] example_run by simp

text \<open>
  C4: in a successful run the sample has \<open>min 5 transformed_count\<close> elements; they are
  the dictionaries of the first accepted rows, in arrival order; each has exactly the
  header's names as keys and maps a name to the row's value at the name's position, the
  empty string at or beyond the row's length (for a name that occurs twice in the
  header, Python's dictionary keeps the value at its last position).
\<close>

theorem sample_of_first_accepted:
  assumes "run_csv_etl clk s inp outp = (Returned (Success ts st smp out), s')"
    and "files s (input_or_default inp) = Some (Csv (header # rows))"
    and "index_of header ''ImageID'' = Some k"
  shows "map_of st ''transformed_count'' = Some (int (length (filter (key_field_accepted k) rows))) \<and>
         length smp = min 5 (length (filter (key_field_accepted k) rows)) \<and>
         smp = map (sample_row header) (take 5 (filter (key_field_accepted k) rows)) \<and>
         (\<forall>j < length smp.
            fst ` set (smp ! j) = set header \<and>
            (\<forall>i < length header. header ! i \<notin> set (drop (Suc i) header) \<longrightarrow>
               map_of (smp ! j) (header ! i)
                 = Some (padded_field (filter (key_field_accepted k) rows ! j) i)))"
proof -
  let ?acc = "filter (key_field_accepted k) rows"
  from run_csv_etl_SuccessD [OF assms(1)] assms(2,3)
  have st: "st = [(''initial_count'', initial_count (final_state header k rows)),
              (''transformed_count'', transformed_count (final_state header k rows)),
              (''filtered_count'', filtered_count (final_state header k rows))]"
    and smp: "smp = sample_rows (final_state header k rows)"
    by auto
  have tc: "map_of st ''transformed_count'' = Some (int (length ?acc))"
    by (simp add: st final_state_stats)
  have eq: "smp = map (sample_row header) (take 5 ?acc)"
    by (simp add: smp final_state_sample)
  then have len: "length smp = min 5 (length ?acc)"
    by (simp add: min.commute)
  have "fst ` set (smp ! j) = set header \<and>
        (\<forall>i < length header. header ! i \<notin> set (drop (Suc i) header) \<longrightarrow>
           map_of (smp ! j) (header ! i) = Some (padded_field (?acc ! j) i))"
    if "j < length smp" for j
  proof -
    from that len have "j < length (take 5 ?acc)" "j < 5"
      by simp_all
    then have "smp ! j = sample_row header (?acc ! j)"
      by (simp add: eq)
    then show ?thesis
      by (simp add: sample_row_keys sample_row_lookup)
  qed
  with tc len eq show ?thesis
    by blast
qed

theorem sample_of_first_accepted_witness:
  "run_csv_etl example_clock (fs_with_input scenario_table) None None
     = (Returned (Success ''2024-01-01T12:00:00''
          [(''initial_count'', 3), (''transformed_count'', 2), (''filtered_count'', 1)]
          [[(''ImageID'', ''i2''), (''LabelName'', ''dog''), (''Confidence'', ''0.8'')],
           [(''ImageID'', ''i3''), (''LabelName'', ''''), (''Confidence'', ''0.5'')]]
          ''data/output/csv_20240101_120000/processed_data.csv''),
        snd (run_csv_etl example_clock (fs_with_input scenario_table) None None)) \<and>
   index_of [''ImageID'', ''LabelName'', ''Confidence''] ''ImageID'' = Some 0 \<and>
   length [[(''ImageID'', ''i2''), (''LabelName'', ''dog''), (''Confidence'', ''0.8'')],
           [(''ImageID'', ''i3''), (''LabelName'', ''''), (''Confidence'', ''0.5'')]]
     = min 5 (length (filter (key_field_accepted 0)
         [['''', ''cat'', ''0.9''], [''i2'', ''dog'', ''0.8''], [''i3'', '''', ''0.5'']]))"
proof -
  have ix: "index_of [''ImageID'', ''LabelName'', ''Confidence''] ''ImageID'' = Some 0"
    by simp
  from sample_of_first_accepted [OF example_run example_input ix] example_run ix
  show ?thesis
    by blast
qed

text \<open>
  C5: on the scenario of the specification the run, unless the environment stops it
  (an exception raised while the output directory is made, or caught in the \<open>try\<close>
  block: a file that cannot be opened or copied, or an input emptied because it is also
  the output), succeeds with the counts 3, 2 and 1 and the sample of the two accepted
  rows. In a file system that holds only the input it does succeed.
\<close>

theorem scenario_run:
  assumes "files s (input_or_default inp) = Some (Csv scenario_table)"
  shows "(\<exists>e. fst (run_csv_etl clk s inp outp) = Raised e) \<or>
         (\<exists>e. fst (run_csv_etl clk s inp outp) = Returned (Failure (Str e) (isoformat clk))) \<or>
         (\<exists>out. fst (run_csv_etl clk s inp outp)
            = Returned (Success (isoformat clk)
                [(''initial_count'', 3), (''transformed_count'', 2), (''filtered_count'', 1)]
                [[(''ImageID'', ''i2''), (''LabelName'', ''dog''), (''Confidence'', ''0.8'')],
                 [(''ImageID'', ''i3''), (''LabelName'', ''''), (''Confidence'', ''0.5'')]]
                out))"
proof -
  have ex: "exists s (input_or_default inp)"
    using assms by (auto simp: exists_def)
  show ?thesis
  proof (cases "prepare_output clk s outp")
    case (Inl e)
    with ex show ?thesis
      by (simp add: run_csv_etl_def)
  next
    case (Inr p)
    obtain out s0 where p: "p = (out, s0)"
      by (cases p)
    from Inr p have f0: "files s0 = files s"
      by (simp add: prepare_output_files)
    have run: "fst (run_csv_etl clk s inp outp)
                 = Returned (fst (run_body clk s0 (input_or_default inp) out))"
      using ex Inr p by (simp add: run_csv_etl_def split: prod.splits)
    have stats: "process_rows [''ImageID'', ''LabelName'', ''Confidence''] 0
                   (loop_start [''ImageID'', ''LabelName'', ''Confidence''])
                   [['''', ''cat'', ''0.9''], [''i2'', ''dog'', ''0.8''], [''i3'', '''', ''0.5'']]
                 = \<lparr>initial_count = 3, transformed_count = 2, filtered_count = 1,
                    sample_rows =
                      [[(''ImageID'', ''i2''), (''LabelName'', ''dog''), (''Confidence'', ''0.8'')],
                       [(''ImageID'', ''i3''), (''LabelName'', ''''), (''Confidence'', ''0.5'')]],
                    outfile = [[''ImageID'', ''LabelName'', ''Confidence''],
                               [''i2'', ''dog'', ''0.8''], [''i3'', '''', ''0.5'']]\<rparr>"
      by (simp add: process_rows_def process_row_def loop_start_def strip_def isspace_def
            sample_row_def enumerate_eq_zip Let_def)
    have "(\<exists>e. fst (run_body clk s0 (input_or_default inp) out) = Failure (Str e) (isoformat clk)) \<or>
          fst (run_body clk s0 (input_or_default inp) out)
            = Success (isoformat clk)
                [(''initial_count'', 3), (''transformed_count'', 2), (''filtered_count'', 1)]
                [[(''ImageID'', ''i2''), (''LabelName'', ''dog''), (''Confidence'', ''0.8'')],
                 [(''ImageID'', ''i3''), (''LabelName'', ''''), (''Confidence'', ''0.5'')]]
                out"
      using assms f0
      by (auto simp: run_body_def csv_rows_def open_read_def open_write_def scenario_table_def
            stats Let_def
          split: sum.splits list.splits option.splits content.splits if_splits)
    with run show ?thesis
      by auto
  qed
qed

theorem scenario_run_witness:
  "files (fs_with_input scenario_table) (input_or_default None) = Some (Csv scenario_table) \<and>
   fst (run_csv_etl example_clock (fs_with_input scenario_table) None None)
     = Returned (Success (isoformat example_clock)
         [(''initial_count'', 3), (''transformed_count'', 2), (''filtered_count'', 1)]
         [[(''ImageID'', ''i2''), (''LabelName'', ''dog''), (''Confidence'', ''0.8'')],
          [(''ImageID'', ''i3''), (''LabelName'', ''''), (''Confidence'', ''0.5'')]]
         ''data/output/csv_20240101_120000/processed_data.csv'')"
proof -
  have h: "files (fs_with_input scenario_table) (input_or_default None) = Some (Csv scenario_table)"
    by (simp add: fs_with_input_def input_or_default_def)
  have iso: "isoformat example_clock = ''2024-01-01T12:00:00''"
    by (simp add: example_clock_def)
  have "fst (run_csv_etl example_clock (fs_with_input scenario_table) None None)
     = Returned (Success ''2024-01-01T12:00:00''
         [(''initial_count'', 3), (''transformed_count'', 2), (''filtered_count'', 1)]
         [[(''ImageID'', ''i2''), (''LabelName'', ''dog''), (''Confidence'', ''0.8'')],
          [(''ImageID'', ''i3''), (''LabelName'', ''''), (''Confidence'', ''0.5'')]]
         ''data/output/csv_20240101_120000/processed_data.csv'')"
    by (subst example_run) simp
  with scenario_run [OF h, of example_clock None] h iso show ?thesis
    by simp
qed

text \<open>
  C7: when a run succeeds with \<open>transformed_count \<ge> 1\<close>, the output file holds the
  header of the input as its first row, every data row in it has a value at the
  position of \<open>ImageID\<close> that is non-empty after stripping, and there is at least one
  data row.
\<close>

theorem output_passes_validation:
  assumes "run_csv_etl clk s inp outp = (Returned (Success ts st smp out), s')"
    and "map_of st ''transformed_count'' = Some tc" and "1 \<le> tc"
  shows "\<exists>header rows k out_rows.
           files s (input_or_default inp) = Some (Csv (header # rows)) \<and>
           files s' out = Some (Csv (header # out_rows)) \<and>
           k < length header \<and> header ! k = ''ImageID'' \<and>
           (\<forall>r \<in> set out_rows. k < length r \<and> strip (r ! k) \<noteq> []) \<and>
           1 \<le> length out_rows"
proof -
  from run_csv_etl_SuccessD [OF assms(1)] obtain header rows k where
    inp: "files s (input_or_default inp) = Some (Csv (header # rows))"
    and ix: "index_of header ''ImageID'' = Some k"
    and st: "st = [(''initial_count'', initial_count (final_state header k rows)),
               (''transformed_count'', transformed_count (final_state header k rows)),
               (''filtered_count'', filtered_count (final_state header k rows))]"
    and out: "files s' out = Some (Csv (outfile (final_state header k rows)))"
    by blast
  let ?kept = "filter (key_field_accepted k) rows"
  from out have 1: "files s' out = Some (Csv (header # ?kept))"
    by (simp add: final_state_stats)
  from st assms(2,3) have 2: "1 \<le> length ?kept"
    by (simp add: final_state_stats)
  have 3: "\<forall>r \<in> set ?kept. k < length r \<and> strip (r ! k) \<noteq> []"
    by (simp add: key_field_accepted_def)
  from inp 1 2 3 index_of_SomeD [OF ix] show ?thesis
    by blast
qed

theorem output_passes_validation_witness:
  "run_csv_etl example_clock (fs_with_input scenario_table) None None
     = (Returned (Success ''2024-01-01T12:00:00''
          [(''initial_count'', 3), (''transformed_count'', 2), (''filtered_count'', 1)]
          [[(''ImageID'', ''i2''), (''LabelName'', ''dog''), (''Confidence'', ''0.8'')],
           [(''ImageID'', ''i3''), (''LabelName'', ''''), (''Confidence'', ''0.5'')]]
          ''data/output/csv_20240101_120000/processed_data.csv''),
        snd (run_csv_etl example_clock (fs_with_input scenario_table) None None)) \<and>
   map_of [(''initial_count'', 3), (''transformed_count'', 2), (''filtered_count'', 1)]
       ''transformed_count'' = Some (2 :: int) \<and> (1 :: int) \<le> 2 \<and>
   (\<exists>out_rows.
      files (snd (run_csv_etl example_clock (fs_with_input scenario_table) None None))
          ''data/output/csv_20240101_120000/processed_data.csv''
        = Some (Csv ([''ImageID'', ''LabelName'', ''Confidence''] # out_rows)) \<and>
      1 \<le> length out_rows)"
proof -
  have tc: "map_of [(''initial_count'', 3), (''transformed_count'', 2), (''filtered_count'', 1)]
              ''transformed_count'' = Some (2 :: int)"
    by simp
  from output_passes_validation [OF example_run tc] example_input
  have "\<exists>out_rows.
      files (snd (run_csv_etl example_clock (fs_with_input scenario_table) None None))
          ''data/output/csv_20240101_120000/processed_data.csv''
        = Some (Csv ([''ImageID'', ''LabelName'', ''Confidence''] # out_rows)) \<and>
      1 \<le> length out_rows"
    by auto
  with example_run tc show ?thesis
    by simp
qed

text \<open>
  C10: the statistics and the sample of a successful run depend on the contents of the
  input file only: two successful runs, at any times, in any file systems and with any
  output paths, return the same statistics and the same sample when their input files
  hold the same contents.
\<close>

theorem statistics_depend_on_input_only:
  assumes "run_csv_etl clk1 s1 inp1 outp1 = (Returned (Success ts1 st1 smp1 out1), s1')"
    and "run_csv_etl clk2 s2 inp2 outp2 = (Returned (Success ts2 st2 smp2 out2), s2')"
    and "files s1 (input_or_default inp1) = files s2 (input_or_default inp2)"
  shows "st1 = st2 \<and> smp1 = smp2"
proof -
  from run_csv_etl_SuccessD [OF assms(1)] obtain h1 rows1 k1 where
    1: "files s1 (input_or_default inp1) = Some (Csv (h1 # rows1))"
       "index_of h1 ''ImageID'' = Some k1"
       "st1 = [(''initial_count'', initial_count (final_state h1 k1 rows1)),
               (''transformed_count'', transformed_count (final_state h1 k1 rows1)),
               (''filtered_count'', filtered_count (final_state h1 k1 rows1))]"
       "smp1 = sample_rows (final_state h1 k1 rows1)"
    by blast
  from run_csv_etl_SuccessD [OF assms(2)] obtain h2 rows2 k2 where
    2: "files s2 (input_or_default inp2) = Some (Csv (h2 # rows2))"
       "index_of h2 ''ImageID'' = Some k2"
       "st2 = [(''initial_count'', initial_count (final_state h2 k2 rows2)),
               (''transformed_count'', transformed_count (final_state h2 k2 rows2)),
               (''filtered_count'', filtered_count (final_state h2 k2 rows2))]"
       "smp2 = sample_rows (final_state h2 k2 rows2)"
    by blast
  from 1(1) 2(1) assms(3) have "h1 = h2" "rows1 = rows2"
    by simp_all
  with 1(2) 2(2) have "k1 = k2"
    by simp
  with \<open>h1 = h2\<close> \<open>rows1 = rows2\<close> 1(3,4) 2(3,4) show ?thesis
    by simp
qed

lemma other_run:
  "run_csv_etl other_clock (fs_with_leftovers scenario_table) (Some ''in.csv'')
       (Some ''results/run2.csv'')
     = (Returned (Success ''2025-06-30T08:30:00''
          [(''initial_count'', 3), (''transformed_count'', 2), (''filtered_count'', 1)]
          [[(''ImageID'', ''i2''), (''LabelName'', ''dog''), (''Confidence'', ''0.8'')],
           [(''ImageID'', ''i3''), (''LabelName'', ''''), (''Confidence'', ''0.5'')]]
          ''results/run2.csv''),
        snd (run_csv_etl other_clock (fs_with_leftovers scenario_table) (Some ''in.csv'')
               (Some ''results/run2.csv'')))"
  by (simp add: prod_eq_iff eval_defs other_clock_def fs_with_leftovers_def scenario_table_def)

theorem statistics_depend_on_input_only_witness:
  "run_csv_etl example_clock (fs_with_input scenario_table) None None
     = (Returned (Success ''2024-01-01T12:00:00''
          [(''initial_count'', 3), (''transformed_count'', 2), (''filtered_count'', 1)]
          [[(''ImageID'', ''i2''), (''LabelName'', ''dog''), (''Confidence'', ''0.8'')],
           [(''ImageID'', ''i3''), (''LabelName'', ''''), (''Confidence'', ''0.5'')]]
          ''data/output/csv_20240101_120000/processed_data.csv''),
        snd (run_csv_etl example_clock (fs_with_input scenario_table) None None)) \<and>
   run_csv_etl other_clock (fs_with_leftovers scenario_table) (Some ''in.csv'')
       (Some ''results/run2.csv'')
     = (Returned (Success ''2025-06-30T08:30:00''
          [(''initial_count'', 3), (''transformed_count'', 2), (''filtered_count'', 1)]
          [[(''ImageID'', ''i2''), (''LabelName'', ''dog''), (''Confidence'', ''0.8'')],
           [(''ImageID'', ''i3''), (''LabelName'', ''''), (''Confidence'', ''0.5'')]]
          ''results/run2.csv''),
        snd (run_csv_etl other_clock (fs_with_leftovers scenario_table) (Some ''in.csv'')
               (Some ''results/run2.csv''))) \<and>
   files (fs_with_input scenario_table) (input_or_default None)
     = files (fs_with_leftovers scenario_table) (input_or_default (Some ''in.csv''))"
proof -
  have same: "files (fs_with_input scenario_table) (input_or_default None)
     = files (fs_with_leftovers scenario_table) (input_or_default (Some ''in.csv''))"
    by (simp add: fs_with_input_def fs_with_leftovers_def input_or_default_def)
  from statistics_depend_on_input_only [OF example_run other_run same] example_run other_run same
  show ?thesis
    by blast
qed




text \<open>
  C8: an output path without a directory part makes \<open>os.makedirs\<close> raise
  \<open>FileNotFoundError\<close> (line 48, before the \<open>try\<close> block): the call raises instead of
  returning a failure result.
\<close>

theorem bare_output_name_raises:
  "run_csv_etl clk (fs_with_input scenario_table) None (Some ''out.csv'')
     = (Raised FileNotFoundError, fs_with_input scenario_table)"
  by (simp add: run_csv_etl_def input_or_default_def exists_def prepare_output_def
        makedirs_def dirname_def fs_with_input_def)

text \<open>
  C6: when the input path does not exist, \<open>run_csv_etl\<close> and \<open>run_pandas_etl\<close> return the
  failure with the not-found message and \<open>ingest\<close> raises \<open>FileNotFoundError\<close>, and the
  file system is left as it was: no directory and no file has been created. The readers
  of pandas and Spark are not reached.
\<close>

theorem missing_input_creates_nothing:
  assumes "\<not> exists s (input_or_default inp)"
  shows "run_csv_etl clk s inp outp
           = (Returned (Failure (Text (''Input file '' @ input_or_default inp @ '' does not exist''))
                                (isoformat clk)), s) \<and>
         run_pandas_etl read_csv clk s inp outp
           = (Returned (Failure (Text (''Input file '' @ input_or_default inp @ '' does not exist''))
                                (isoformat clk)), s) \<and>
         ingest spark_csv s inp outp = (Raised FileNotFoundError, s)"
  using assms by (simp add: run_csv_etl_def run_pandas_etl_def ingest_def)

theorem missing_input_creates_nothing_witness:
  "\<forall>read_csv spark_csv.
     \<not> exists (fs_with_input scenario_table) (input_or_default (Some ''data/missing.csv'')) \<and>
     run_csv_etl example_clock (fs_with_input scenario_table) (Some ''data/missing.csv'') None
       = (Returned (Failure (Text ''Input file data/missing.csv does not exist'')
                            ''2024-01-01T12:00:00''), fs_with_input scenario_table) \<and>
     run_pandas_etl read_csv example_clock (fs_with_input scenario_table)
         (Some ''data/missing.csv'') None
       = (Returned (Failure (Text ''Input file data/missing.csv does not exist'')
                            ''2024-01-01T12:00:00''), fs_with_input scenario_table) \<and>
     ingest spark_csv (fs_with_input scenario_table) (Some ''data/missing.csv'') None
       = (Raised FileNotFoundError, fs_with_input scenario_table)"
proof (intro allI)
  fix read_csv spark_csv :: "table \<Rightarrow> py_error + string frame"
  have h: "\<not> exists (fs_with_input scenario_table) (input_or_default (Some ''data/missing.csv''))"
    by (simp add: exists_def fs_with_input_def input_or_default_def)
  from missing_input_creates_nothing [OF h, of example_clock None read_csv spark_csv] h
  show "\<not> exists (fs_with_input scenario_table) (input_or_default (Some ''data/missing.csv'')) \<and>
     run_csv_etl example_clock (fs_with_input scenario_table) (Some ''data/missing.csv'') None
       = (Returned (Failure (Text ''Input file data/missing.csv does not exist'')
                            ''2024-01-01T12:00:00''), fs_with_input scenario_table) \<and>
     run_pandas_etl read_csv example_clock (fs_with_input scenario_table)
         (Some ''data/missing.csv'') None
       = (Returned (Failure (Text ''Input file data/missing.csv does not exist'')
                            ''2024-01-01T12:00:00''), fs_with_input scenario_table) \<and>
     ingest spark_csv (fs_with_input scenario_table) (Some ''data/missing.csv'') None
       = (Raised FileNotFoundError, fs_with_input scenario_table)"
    by (simp add: input_or_default_def example_clock_def)
qed

section \<open>The three runners compared\<close>














end
